theory Spec2Isabelle
  imports Complex_Main "HOL-Library.Char_ord" "HOL-Library.List_Lexorder" "HOL-Library.AList"
begin

section \<open>JavaScript numbers\<close>

text \<open>
  A JavaScript number is a finite value, one of the two infinities, or NaN. Finite values are
  modelled by real numbers: every finite double is one, comparisons are exact, and
  the arithmetic of the program (adding one, dividing a day count, rounding up) is exact on
  the integers below \<open>2 ^ 53\<close> that day counts and wash counts are. Negative zero is
  identified with zero: the program never divides by a value that can be negative zero.

  A JavaScript string is a list of code units, and \<open><\<close> on strings compares unit by unit,
  a proper prefix first: the order of \<open>string\<close> here. The model has the code units below
  256, which cover every label of the program.
\<close>

datatype jsnum = Fin real | PosInf | NegInf | NaN


text \<open>The operator \<open>+\<close> on two numbers.\<close>

fun jsAdd :: "jsnum \<Rightarrow> jsnum \<Rightarrow> jsnum" where
  "jsAdd NaN _ = NaN"
| "jsAdd _ NaN = NaN"
| "jsAdd (Fin a) (Fin b) = Fin (a + b)"
| "jsAdd PosInf NegInf = NaN"
| "jsAdd NegInf PosInf = NaN"
| "jsAdd PosInf _ = PosInf"
| "jsAdd _ PosInf = PosInf"
| "jsAdd NegInf _ = NegInf"
| "jsAdd _ NegInf = NegInf"

text \<open>The operator \<open>/\<close> on two numbers; a zero divisor is positive zero.\<close>

fun jsDiv :: "jsnum \<Rightarrow> jsnum \<Rightarrow> jsnum" where
  "jsDiv NaN _ = NaN"
| "jsDiv _ NaN = NaN"
| "jsDiv (Fin a) (Fin b) =
     (if b = 0 then (if a > 0 then PosInf else if a < 0 then NegInf else NaN)
      else Fin (a / b))"
| "jsDiv (Fin _) _ = Fin 0"
| "jsDiv PosInf (Fin b) = (if b \<ge> 0 then PosInf else NegInf)"
| "jsDiv NegInf (Fin b) = (if b \<ge> 0 then NegInf else PosInf)"
| "jsDiv _ _ = NaN"

text \<open>\<open>Math.ceil\<close>.\<close>

fun jsCeil :: "jsnum \<Rightarrow> jsnum" where
  "jsCeil (Fin a) = Fin (of_int \<lceil>a\<rceil>)"
| "jsCeil x = x"

text \<open>The comparison \<open>a < b\<close>; any comparison with NaN is false.\<close>

fun jsLt :: "jsnum \<Rightarrow> jsnum \<Rightarrow> bool" where
  "jsLt NaN _ = False"
| "jsLt _ NaN = False"
| "jsLt (Fin a) (Fin b) = (a < b)"
| "jsLt _ NegInf = False"
| "jsLt NegInf _ = True"
| "jsLt PosInf _ = False"
| "jsLt _ PosInf = True"

text \<open>The comparison \<open>a <= b\<close>.\<close>

fun jsLe :: "jsnum \<Rightarrow> jsnum \<Rightarrow> bool" where
  "jsLe NaN _ = False"
| "jsLe _ NaN = False"
| "jsLe a b = (a = b \<or> jsLt a b)"

text \<open>\<open>Math.max\<close> and \<open>Math.min\<close> of two numbers.\<close>

fun jsMax :: "jsnum \<Rightarrow> jsnum \<Rightarrow> jsnum" where
  "jsMax NaN _ = NaN"
| "jsMax _ NaN = NaN"
| "jsMax a b = (if jsLt a b then b else a)"

fun jsMin :: "jsnum \<Rightarrow> jsnum \<Rightarrow> jsnum" where
  "jsMin NaN _ = NaN"
| "jsMin _ NaN = NaN"
| "jsMin a b = (if jsLt b a then b else a)"

text \<open>Truthiness of a number: zero and NaN are falsy. \<open>orOne q\<close> is \<open>q || 1\<close>.\<close>

fun truthy :: "jsnum \<Rightarrow> bool" where
  "truthy (Fin a) = (a \<noteq> 0)"
| "truthy NaN = False"
| "truthy _ = True"

definition orOne :: "jsnum \<Rightarrow> jsnum" where
  "orOne q = (if truthy q then q else Fin 1)"

section \<open>Date and window utilities\<close>

text \<open>
  A \<open>Date\<close> object holds a time value: an integer number of milliseconds since the epoch,
  or NaN (here \<open>None\<close>) for an invalid date. The constructor \<open>new Date(string)\<close> belongs
  to the platform; the functions below take it as the parameter \<open>newDate\<close>.
\<close>

datatype date = Date (getTime: "int option")

text \<open>\<open>parseISODateToUTC\<close>: null on an empty string, else the platform's date.\<close>

definition parseISODateToUTC :: "(string \<Rightarrow> date) \<Rightarrow> string \<Rightarrow> date option" where
  "parseISODateToUTC newDate isoStr =
     (if isoStr = [] then None else Some (newDate (isoStr @ ''T00:00:00Z'')))"

text \<open>
  \<open>tripDaysInclusive\<close>. A Date object is truthy even when invalid; an invalid date makes
  \<open>ms\<close> NaN, \<open>daysDiff >= 0\<close> false and the result 0.
\<close>

definition tripDaysInclusive :: "(string \<Rightarrow> date) \<Rightarrow> string \<Rightarrow> string \<Rightarrow> int" where
  "tripDaysInclusive newDate startS endS =
     (case (parseISODateToUTC newDate startS, parseISODateToUTC newDate endS) of
        (Some startD, Some endD) \<Rightarrow>
          (case (getTime startD, getTime endD) of
             (Some s, Some e) \<Rightarrow>
               (let ms = e - s;
                    daysDiff = \<lfloor>real_of_int ms / (1000 * 60 * 60 * 24)\<rfloor>
                in if daysDiff \<ge> 0 then daysDiff + 1 else 0)
           | _ \<Rightarrow> 0)
      | _ \<Rightarrow> 0)"

text \<open>
  \<open>safeParseNumber\<close>, applied to the value of \<open>Number(v)\<close>: null unless finite.
\<close>

definition safeParseNumber :: "jsnum \<Rightarrow> real option" where
  "safeParseNumber n = (case n of Fin r \<Rightarrow> Some r | _ \<Rightarrow> None)"

text \<open>
  A trip segment, with the fields the computations read; the other fields of the object
  (its id, its location, the state of the weather lookup) are the extension of the record,
  and the functions take segments with any extension. A date is a string, empty when
  unset. \<open>tempMin\<close> and \<open>tempMax\<close> hold the value \<open>Number\<close> gives for the field.
\<close>

record segment =
  startDate :: string
  endDate :: string
  tempMin :: jsnum
  tempMax :: jsnum
  rainLikely :: bool
  hotSunLikely :: bool
  humidLikely :: bool

record tripWindow =
  startISO :: string
  endISO :: string

text \<open>\<open>computeOverallTripWindow\<close>; \<open>filter(Boolean)\<close> drops the empty strings.\<close>

definition computeOverallTripWindow :: "'a segment_scheme list \<Rightarrow> tripWindow" where
  "computeOverallTripWindow segs =
     (let starts = filter (\<lambda>d. d \<noteq> []) (map startDate segs);
          ends = filter (\<lambda>d. d \<noteq> []) (map endDate segs)
      in if length starts = 0 \<or> length ends = 0 then \<lparr>startISO = [], endISO = []\<rparr>
         else \<lparr>startISO = foldl (\<lambda>mn d. if d < mn then d else mn) (hd starts) starts,
               endISO = foldl (\<lambda>mx d. if d > mx then d else mx) (hd ends) ends\<rparr>)"

text \<open>The two membership predicates; an empty argument means no filter.\<close>

definition dateInSegmentExclusive :: "string \<Rightarrow> string \<Rightarrow> string \<Rightarrow> bool" where
  "dateInSegmentExclusive dayS startS endS =
     (if dayS = [] \<or> startS = [] \<or> endS = [] then True
      else dayS \<ge> startS \<and> dayS < endS)"

definition dateInSegmentInclusive :: "string \<Rightarrow> string \<Rightarrow> string \<Rightarrow> bool" where
  "dateInSegmentInclusive dayS startS endS =
     (if dayS = [] \<or> startS = [] \<or> endS = [] then True
      else dayS \<ge> startS \<and> dayS \<le> endS)"

section \<open>Weather aggregator\<close>

record weatherSummary =
  overallMin :: "real option"
  overallMax :: "real option"
  anyRain :: bool
  anySun :: bool
  anyHumid :: bool

text \<open>One iteration of the loop of \<open>computeWeatherSummary\<close>.\<close>

definition weatherStep :: "weatherSummary \<Rightarrow> 'a segment_scheme \<Rightarrow> weatherSummary" where
  "weatherStep w s =
     (let minT = safeParseNumber (tempMin s);
          maxT = safeParseNumber (tempMax s)
      in \<lparr>overallMin =
             (case minT of None \<Rightarrow> overallMin w
              | Some t \<Rightarrow> (case overallMin w of None \<Rightarrow> Some t | Some m \<Rightarrow> Some (min m t))),
           overallMax =
             (case maxT of None \<Rightarrow> overallMax w
              | Some t \<Rightarrow> (case overallMax w of None \<Rightarrow> Some t | Some m \<Rightarrow> Some (max m t))),
           anyRain = (if rainLikely s then True else anyRain w),
           anySun = (if hotSunLikely s then True else anySun w),
           anyHumid = (if humidLikely s then True else anyHumid w)\<rparr>)"

definition computeWeatherSummary :: "'a segment_scheme list \<Rightarrow> weatherSummary" where
  "computeWeatherSummary segs =
     foldl weatherStep
       \<lparr>overallMin = None, overallMax = None, anyRain = False, anySun = False,
         anyHumid = False\<rparr> segs"

section \<open>Clothing-quantity calculator\<close>

record clothesMath =
  days :: int
  washCount :: real
  cycles :: real
  baseSets :: jsnum
  setsNeeded :: jsnum

text \<open>
  \<open>computeClothesMath\<close>. The argument \<open>washesN\<close> is the value of \<open>Number(washes)\<close>,
  which is NaN when \<open>washes\<close> is not numeric.
\<close>

definition computeClothesMath ::
  "(string \<Rightarrow> date) \<Rightarrow> string \<Rightarrow> string \<Rightarrow> jsnum \<Rightarrow> bool \<Rightarrow> clothesMath" where
  "computeClothesMath newDate startS endS washesN spare =
     (let d = tripDaysInclusive newDate startS endS;
          washCountRaw = washesN;
          wc = (case washCountRaw of Fin w \<Rightarrow> w | _ \<Rightarrow> 0);
          cy = wc + 1;
          bs = (if d > 0 then jsCeil (jsDiv (Fin (of_int d)) (Fin cy)) else Fin 0);
          sn = (if spare then jsAdd bs (Fin 1) else bs)
      in \<lparr>days = d, washCount = wc, cycles = cy, baseSets = bs, setsNeeded = sn\<rparr>)"

section \<open>Packing items\<close>

text \<open>
  A packing item. Every item is built by \<open>packItem\<close>, so its quantity is a number.
\<close>

record packingItem =
  category :: string
  name :: string
  quantity :: jsnum
  bag :: string

definition packItem :: "string \<Rightarrow> string \<Rightarrow> jsnum \<Rightarrow> string \<Rightarrow> packingItem" where
  "packItem c n q b = \<lparr>category = c, name = n, quantity = q, bag = b\<rparr>"

text \<open>\<open>stableKey\<close> ignores the bag; it is the key of the bag overrides.\<close>

definition stableKey :: "packingItem \<Rightarrow> string" where
  "stableKey item = category item @ ''__'' @ name item"

text \<open>The key \<open>uniqItemsByBag\<close> builds for an item.\<close>

definition mergeKey :: "packingItem \<Rightarrow> string" where
  "mergeKey it = bag it @ ''__'' @ category it @ ''__'' @ name it"

text \<open>The three fields that key is built from.\<close>

definition labels :: "packingItem \<Rightarrow> string \<times> string \<times> string" where
  "labels it = (bag it, category it, name it)"

text \<open>
  \<open>uniqItemsByBag\<close>. The \<open>Map\<close> is an association list in insertion order: setting an
  existing key keeps its place, a new key goes to the end. One iteration of the loop:
\<close>

definition uniqStep ::
  "(string \<times> packingItem) list \<Rightarrow> packingItem \<Rightarrow> (string \<times> packingItem) list" where
  "uniqStep m it =
     (let key = mergeKey it
      in case map_of m key of
           Some existing \<Rightarrow>
             AList.update key
               (existing\<lparr>quantity := jsAdd (orOne (quantity existing)) (orOne (quantity it))\<rparr>) m
         | None \<Rightarrow> AList.update key it m)"

definition uniqItemsByBag :: "packingItem list \<Rightarrow> packingItem list" where
  "uniqItemsByBag items = map snd (foldl uniqStep [] items)"

text \<open>
  \<open>addWeatherClothes\<close> pushes onto the list it is given; the model returns the new list.
\<close>

definition addWeatherClothes ::
  "packingItem list \<Rightarrow> real option \<Rightarrow> real option \<Rightarrow> bool \<Rightarrow> bool \<Rightarrow> packingItem list" where
  "addWeatherClothes items minT maxT rainF sunF =
     items
     @ (case minT of
          None \<Rightarrow> []
        | Some t \<Rightarrow>
            (if t \<le> 5 then
               [packItem ''Clothes'' ''Warm jacket'' (Fin 1) ''checked'',
                packItem ''Clothes'' ''Warm layer (jumper or hoodie)'' (Fin 1) ''checked'']
             else if t \<le> 12 then
               [packItem ''Clothes'' ''Light jacket'' (Fin 1) ''checked'',
                packItem ''Clothes'' ''Warm layer (jumper or hoodie)'' (Fin 1) ''checked'']
             else if t \<le> 16 then
               [packItem ''Clothes'' ''Light layer (jumper or cardigan)'' (Fin 1) ''checked'']
             else [])
            @ (if t \<le> 10 then
                 [packItem ''Clothes'' ''Beanie'' (Fin 1) ''checked'',
                  packItem ''Clothes'' ''Scarf'' (Fin 1) ''checked'',
                  packItem ''Clothes'' ''Gloves'' (Fin 1) ''checked'']
               else []))
     @ (if rainF then [packItem ''Clothes'' ''Umbrella or rain jacket'' (Fin 1) ''checked''] else [])
     @ (if sunF then [packItem ''Clothes'' ''Sunglasses'' (Fin 1) ''checked''] else [])
     @ (case maxT of
          None \<Rightarrow> []
        | Some t \<Rightarrow>
            (if t \<ge> 32 then [packItem ''Clothes'' ''Hat'' (Fin 1) ''checked'']
             else if t \<ge> 28 then [packItem ''Clothes'' ''Hat (optional)'' (Fin 1) ''checked'']
             else []))"

section \<open>Packing rule engine\<close>

text \<open>The argument of \<open>generatePackingList\<close>, with the fields it destructures.\<close>

record 'a state =
  segments :: "'a segment_scheme list"
  washes :: jsnum
  includeSpareSet :: bool
  pokemonGoNeeded :: bool
  altAccount :: bool
  eggWalker :: bool
  tradeList :: bool
  partnerPokemon :: bool
  isInternational :: bool
  isJapanTrip :: bool
  bringTablet :: bool
  bringWorkLaptop :: bool

text \<open>The word with its e acute, one code unit.\<close>

definition pokemon :: string where
  "pokemon = ''Pok'' @ [CHR 0xE9] @ ''mon''"

text \<open>
  The pushes of \<open>generatePackingList\<close>, in the order of the source, in four runs: from the
  first push to the toiletries, the clothes pushed when the trip has days (before the call
  of \<open>addWeatherClothes\<close>), and the Pok\<open>e\<close>mon GO items.
\<close>

definition generalItems :: "('a, 'b) state_scheme \<Rightarrow> packingItem list" where
  "generalItems st =
     [packItem ''Tech'' ''Main iPhone'' (Fin 1) ''carryOn'',
      packItem ''Tech'' ''Apple Watch'' (Fin 1) ''carryOn'',
      packItem ''Tech'' ''AirPods'' (Fin 1) ''carryOn'',
      packItem ''Tech'' ''Viture neckband'' (Fin 1) ''carryOn'',
      packItem ''Tech'' ''Viture glasses'' (Fin 1) ''carryOn'']
     @ (if bringTablet st then [packItem ''Tech'' ''Tablet'' (Fin 1) ''carryOn''] else [])
     @ (if bringWorkLaptop st then [packItem ''Tech'' ''Work laptop'' (Fin 1) ''carryOn''] else [])
     @ [packItem ''Tech'' ''iPhone charger'' (Fin 1) ''checked'',
        packItem ''Tech'' ''iPhone charging cable'' (Fin 1) ''carryOn'',
        packItem ''Tech'' ''Apple Watch charger'' (Fin 1) ''checked'']
     @ (if bringTablet st then
          [packItem ''Tech'' ''Tablet charger'' (Fin 1) ''checked'',
           packItem ''Tech'' ''Tablet charging cable'' (Fin 1) ''checked'']
        else [])
     @ (if bringWorkLaptop st then [packItem ''Tech'' ''Laptop charger'' (Fin 1) ''checked''] else [])
     @ (if isInternational st then
          [packItem ''Tech'' ''Travel adapter'' (Fin 1) ''checked'',
           packItem ''Tech'' ''Chromecast'' (Fin 1) ''checked'']
        else [])
     @ (if isInternational st then
          [packItem ''Documents'' ''Passport'' (Fin 1) ''carryOn'',
           packItem ''Money'' ''Currency for destination (if you have any)'' (Fin 1) ''carryOn'',
           packItem ''Money'' ''Money pouch'' (Fin 1) ''carryOn'',
           packItem ''Documents'' ''Australian customs form (blank)'' (Fin 1) ''carryOn'',
           packItem ''Documents'' ''Pen'' (Fin 1) ''carryOn'']
        else [])
     @ (if isJapanTrip st then [packItem ''Misc'' ''Eki stamp book'' (Fin 1) ''carryOn''] else [])
     @ [packItem ''Misc'' ''Pillow'' (Fin 1) ''checked'',
        packItem ''Toiletries'' ''Toothbrush'' (Fin 1) ''checked'',
        packItem ''Toiletries'' ''Toothpaste'' (Fin 1) ''checked'',
        packItem ''Toiletries'' ''Deodorant'' (Fin 1) ''checked'',
        packItem ''Toiletries'' ''Face masks'' (Fin 1) ''carryOn'',
        packItem ''Toiletries'' ''Travel hand sanitiser (100ml or less)'' (Fin 1) ''carryOn'',
        packItem ''Toiletries'' ''Body wash'' (Fin 1) ''checked'',
        packItem ''Toiletries'' ''Beard wash'' (Fin 1) ''checked'',
        packItem ''Toiletries'' ''Vitamins'' (Fin 1) ''checked'',
        packItem ''Toiletries'' ''Paracetamol'' (Fin 1) ''carryOn'',
        packItem ''Toiletries'' ''Band aids'' (Fin 1) ''checked'',
        packItem ''Toiletries'' ''Lip balm'' (Fin 1) ''carryOn'',
        packItem ''Toiletries'' ''Condoms'' (Fin 1) ''checked'']"

definition clothesItems :: "clothesMath \<Rightarrow> weatherSummary \<Rightarrow> packingItem list" where
  "clothesItems maths weather =
     (let needsJeans = (case overallMin weather of None \<Rightarrow> False | Some t \<Rightarrow> t \<le> 18);
          needsShorts = (case overallMax weather of None \<Rightarrow> False | Some t \<Rightarrow> t \<ge> 24)
      in [packItem ''Clothes'' ''Underwear'' (setsNeeded maths) ''checked'',
          packItem ''Clothes'' ''Socks'' (setsNeeded maths) ''checked'',
          packItem ''Clothes'' ''Tops'' (setsNeeded maths) ''checked'']
         @ (if needsJeans then
              [packItem ''Clothes'' ''Jeans (or other long pants)'' (Fin 1) ''checked'']
            else [])
         @ (if needsShorts then [packItem ''Clothes'' ''Shorts'' (Fin 2) ''checked''] else [])
         @ (if \<not> needsJeans \<and> \<not> needsShorts then
              [packItem ''Clothes'' ''Bottoms''
                 (jsMax (Fin 1) (jsCeil (jsDiv (setsNeeded maths) (Fin 2)))) ''checked'']
            else [])
         @ (if anyHumid weather
               \<and> (case overallMax weather of None \<Rightarrow> False | Some t \<Rightarrow> t \<ge> 26) then
              [packItem ''Clothes'' ''Singlet''
                 (jsMax (Fin 1) (jsMin (Fin 2) (setsNeeded maths))) ''checked'']
            else [])
         @ [packItem ''Clothes'' ''Sleepwear'' (Fin 1) ''checked''])"

definition pokemonItems :: "('a, 'b) state_scheme \<Rightarrow> packingItem list" where
  "pokemonItems st =
     (if pokemonGoNeeded st then [packItem ''Clothes'' ''Hat'' (Fin 1) ''checked''] else [])
     @ (if pokemonGoNeeded st then
          [packItem (pokemon @ '' GO'') ''Power bank'' (Fin 1) ''carryOn'',
           packItem (pokemon @ '' GO'') (pokemon @ '' GO Plus+'') (Fin 1) ''carryOn'',
           packItem (pokemon @ '' GO'') ''Sunscreen'' (Fin 1) ''checked'',
           packItem (pokemon @ '' GO'') ''Satchel'' (Fin 1) ''checked'']
          @ (if tradeList st then
               [packItem (pokemon @ '' GO'') ''Printed trade list'' (Fin 1) ''checked'',
                packItem (pokemon @ '' GO'') ''Lanyard'' (Fin 1) ''checked'']
             else [])
          @ (if altAccount st then
               [packItem (pokemon @ '' GO'') ''Alt phone'' (Fin 1) ''carryOn'',
                packItem (pokemon @ '' GO'') ''Alt phone charging cable'' (Fin 1) ''checked'']
             else [])
          @ (if eggWalker st then
               [packItem (pokemon @ '' GO'') ''Egg walker'' (Fin 1) ''carryOn'',
                packItem (pokemon @ '' GO'') ''iPhone (for egg walker)'' (Fin 2) ''carryOn'',
                packItem (pokemon @ '' GO'') ''iPhone charging cable (for egg walker)'' (Fin 2)
                  ''checked'']
             else [])
          @ (if partnerPokemon st then
               [packItem (pokemon @ '' GO'') (''Partner '' @ pokemon @ '' plush'') (Fin 1)
                  ''checked'']
             else [])
        else [])"

text \<open>The list \<open>items\<close> of \<open>generatePackingList\<close> when all pushes are done.\<close>

definition pushedItems ::
  "(string \<Rightarrow> date) \<Rightarrow> ('a, 'b) state_scheme \<Rightarrow> packingItem list" where
  "pushedItems newDate st =
     (let win = computeOverallTripWindow (segments st);
          maths = computeClothesMath newDate (startISO win) (endISO win) (washes st)
                    (includeSpareSet st);
          weather = computeWeatherSummary (segments st);
          items = generalItems st;
          items = (if days maths > 0 then
                     addWeatherClothes (items @ clothesItems maths weather)
                       (overallMin weather) (overallMax weather) (anyRain weather)
                       (anySun weather)
                   else items)
      in items @ pokemonItems st)"

text \<open>The bags and the categories that \<open>generatePackingList\<close> passes to \<open>packItem\<close>.\<close>

definition knownLabels :: "packingItem \<Rightarrow> bool" where
  "knownLabels it \<longleftrightarrow>
     bag it \<in> {''carryOn'', ''checked''}
     \<and> category it \<in> {''Tech'', ''Documents'', ''Money'', ''Misc'', ''Toiletries'', ''Clothes'',
          pokemon @ '' GO''}"



section \<open>Item consolidator\<close>

text \<open>
  \<open>localeCompare\<close> belongs to the platform and depends on its locale; the comparator of
  the final sort takes it as the parameter \<open>lc\<close>, with a negative, zero or positive result.
\<close>

definition compareItems ::
  "(string \<Rightarrow> string \<Rightarrow> int) \<Rightarrow> packingItem \<Rightarrow> packingItem \<Rightarrow> int" where
  "compareItems lc a b =
     (if bag a \<noteq> bag b then lc (bag a) (bag b)
      else if category a \<noteq> category b then lc (category a) (category b)
      else lc (name a) (name b))"

text \<open>
  \<open>Array.prototype.sort\<close> is a stable sort. For a comparator that is a consistent total
  order every stable sort returns the same list, the one insertion sort returns.
\<close>

fun insertBy :: "('a \<Rightarrow> 'a \<Rightarrow> int) \<Rightarrow> 'a \<Rightarrow> 'a list \<Rightarrow> 'a list" where
  "insertBy cmp x [] = [x]"
| "insertBy cmp x (y # ys) = (if cmp x y \<le> 0 then x # y # ys else y # insertBy cmp x ys)"

definition sortBy :: "('a \<Rightarrow> 'a \<Rightarrow> int) \<Rightarrow> 'a list \<Rightarrow> 'a list" where
  "sortBy cmp xs = foldr (insertBy cmp) xs []"

text \<open>
  The last two statements of \<open>generatePackingList\<close>: drop the items whose quantity is not
  above zero, merge by key, sort.
\<close>

definition consolidate ::
  "(string \<Rightarrow> string \<Rightarrow> int) \<Rightarrow> packingItem list \<Rightarrow> packingItem list" where
  "consolidate lc items =
     (let cleaned = filter (\<lambda>x. jsLt (Fin 0) (quantity x)) items
      in sortBy (compareItems lc) (uniqItemsByBag cleaned))"

definition generatePackingList ::
  "(string \<Rightarrow> string \<Rightarrow> int) \<Rightarrow> (string \<Rightarrow> date) \<Rightarrow> ('a, 'b) state_scheme
     \<Rightarrow> packingItem list" where
  "generatePackingList lc newDate st = consolidate lc (pushedItems newDate st)"

section \<open>Bag-override layer\<close>



section \<open>Sample platform functions\<close>

text \<open>
  A string comparison by code units, and the platform's dates at two timestamps; they
  instantiate \<open>lc\<close> and \<open>newDate\<close> in the examples.
\<close>

definition codeUnitCompare :: "string \<Rightarrow> string \<Rightarrow> int" where
  "codeUnitCompare s t = (if s = t then 0 else if s < t then - 1 else 1)"

definition sampleNewDate :: "string \<Rightarrow> date" where
  "sampleNewDate s =
     (if s = ''2024-03-01T00:00:00Z'' then Date (Some 1709251200000)
      else if s = ''2024-03-05T00:00:00Z'' then Date (Some 1709596800000)
      else Date None)"


section \<open>Properties of the calculators\<close>

subsection \<open>Day counts and clothing sets\<close>

lemma tripDays_nonneg: "0 \<le> tripDaysInclusive newDate s e"
  by (auto simp: tripDaysInclusive_def Let_def split: option.splits)




lemma setsNeeded_nonneg_washes:
  assumes "0 \<le> r"
  shows "setsNeeded (computeClothesMath nd s e (Fin r) sp) =
           Fin (of_int (\<lceil>real_of_int (tripDaysInclusive nd s e) / (r + 1)\<rceil>
                         + (if sp then 1 else 0)))"
  using assms tripDays_nonneg[of nd s e]
  by (auto simp: computeClothesMath_def Let_def)



subsection \<open>The trip window\<close>

lemma foldl_min_Min:
  fixes a :: "'a::linorder"
  shows "foldl (\<lambda>mn d. if d < mn then d else mn) a xs = Min (insert a (set xs))"
proof (induction xs arbitrary: a)
  case Nil
  show ?case by simp
next
  case (Cons x xs)
  have "Min (insert (if x < a then x else a) (set xs)) = Min (insert a (insert x (set xs)))"
  proof (cases "set xs = {}")
    case True
    then show ?thesis by (auto simp: min_def)
  next
    case False
    then show ?thesis by (auto simp: min_def)
  qed
  with Cons.IH[of "if x < a then x else a"] show ?case by simp
qed

lemma foldl_max_Max:
  fixes a :: "'a::linorder"
  shows "foldl (\<lambda>mx d. if d > mx then d else mx) a xs = Max (insert a (set xs))"
proof (induction xs arbitrary: a)
  case Nil
  show ?case by simp
next
  case (Cons x xs)
  have "Max (insert (if x > a then x else a) (set xs)) = Max (insert a (insert x (set xs)))"
  proof (cases "set xs = {}")
    case True
    then show ?thesis by (auto simp: max_def)
  next
    case False
    then show ?thesis by (auto simp: max_def)
  qed
  with Cons.IH[of "if x > a then x else a"] show ?case by simp
qed

lemma hd_insert_set: "xs \<noteq> [] \<Longrightarrow> insert (hd xs) (set xs) = set xs"
  by (cases xs) auto

lemma reduce_min:
  fixes xs :: "'a::linorder list"
  shows "xs \<noteq> [] \<Longrightarrow> foldl (\<lambda>mn d. if d < mn then d else mn) (hd xs) xs = Min (set xs)"
  unfolding foldl_min_Min by (simp add: hd_insert_set)

lemma reduce_max:
  fixes xs :: "'a::linorder list"
  shows "xs \<noteq> [] \<Longrightarrow> foldl (\<lambda>mx d. if d > mx then d else mx) (hd xs) xs = Max (set xs)"
  unfolding foldl_max_Max by (simp add: hd_insert_set)

lemma window_nonempty:
  assumes "filter (\<lambda>d. d \<noteq> []) (map startDate segs) \<noteq> []"
    and "filter (\<lambda>d. d \<noteq> []) (map endDate segs) \<noteq> []"
  shows "computeOverallTripWindow segs =
    \<lparr>startISO = Min (set (filter (\<lambda>d. d \<noteq> []) (map startDate segs))),
     endISO = Max (set (filter (\<lambda>d. d \<noteq> []) (map endDate segs)))\<rparr>"
  unfolding computeOverallTripWindow_def Let_def reduce_min[OF assms(1)] reduce_max[OF assms(2)]
  using assms by (simp only: length_0_conv if_False simp_thms)

lemma window_empty:
  assumes "filter (\<lambda>d. d \<noteq> []) (map startDate segs) = []
     \<or> filter (\<lambda>d. d \<noteq> []) (map endDate segs) = []"
  shows "computeOverallTripWindow segs = \<lparr>startISO = [], endISO = []\<rparr>"
  using assms by (auto simp: computeOverallTripWindow_def Let_def)

lemma Min_nonempty_strings:
  assumes "xs \<noteq> []" "\<forall>x\<in>set xs. x \<noteq> []"
  shows "Min (set xs) \<noteq> ([]::string)"
proof -
  have "Min (set xs) \<in> set xs"
    using assms(1) by (intro Min_in) auto
  with assms(2) show ?thesis by blast
qed

lemma Max_nonempty_strings:
  assumes "xs \<noteq> []" "\<forall>x\<in>set xs. x \<noteq> []"
  shows "Max (set xs) \<noteq> ([]::string)"
proof -
  have "Max (set xs) \<in> set xs"
    using assms(1) by (intro Max_in) auto
  with assms(2) show ?thesis by blast
qed

subsection \<open>Overrides\<close>

lemma stableKey_bag [simp]: "stableKey (it\<lparr>bag := b\<rparr>) = stableKey it"
  by (simp add: stableKey_def)




section \<open>Properties of the consolidator\<close>

subsection \<open>The sort\<close>

lemma set_insertBy: "set (insertBy cmp x ys) = insert x (set ys)"
  by (induction ys) auto

lemma set_sortBy: "set (sortBy cmp xs) = set xs"
  by (induction xs) (simp_all add: sortBy_def set_insertBy)

lemma length_insertBy: "length (insertBy cmp x ys) = Suc (length ys)"
  by (induction ys) auto

lemma length_sortBy: "length (sortBy cmp xs) = length xs"
  by (induction xs) (simp_all add: sortBy_def length_insertBy)







subsection \<open>The comparator of the items\<close>





subsection \<open>Merging by key\<close>





text \<open>The invariant of the map: keys are distinct, and each is the key of its item.\<close>

lemma mergeKey_quantity [simp]: "mergeKey (it\<lparr>quantity := q\<rparr>) = mergeKey it"
  by (simp add: mergeKey_def)

lemma set_update_subset: "set (AList.update k v m) \<subseteq> insert (k, v) (set m)"
  by (induction m) auto

lemma uniqStep_keyed:
  assumes "\<forall>(k, v)\<in>set m. k = mergeKey v"
  shows "\<forall>(k, v)\<in>set (uniqStep m it). k = mergeKey v"
proof (cases "map_of m (mergeKey it)")
  case None
  then show ?thesis
    using assms set_update_subset[of "mergeKey it" it m]
    by (auto simp: uniqStep_def Let_def)
next
  case (Some ex)
  then have "(mergeKey it, ex) \<in> set m"
    by (rule map_of_SomeD)
  then have "mergeKey ex = mergeKey it"
    using assms by auto
  then show ?thesis
    using Some assms
      set_update_subset[of "mergeKey it"
        "ex\<lparr>quantity := jsAdd (orOne (quantity ex)) (orOne (quantity it))\<rparr>" m]
    by (auto simp: uniqStep_def Let_def)
qed

lemma uniqStep_distinct:
  "distinct (map fst m) \<Longrightarrow> distinct (map fst (uniqStep m it))"
  by (simp add: uniqStep_def Let_def distinct_update split: option.splits)

lemma foldl_uniqStep_inv:
  "distinct (map fst m) \<Longrightarrow> \<forall>(k, v)\<in>set m. k = mergeKey v \<Longrightarrow>
   distinct (map fst (foldl uniqStep m xs)) \<and> (\<forall>(k, v)\<in>set (foldl uniqStep m xs). k = mergeKey v)"
proof (induction xs arbitrary: m)
  case Nil
  then show ?case by simp
next
  case (Cons x xs)
  show ?case
    using Cons.IH[OF uniqStep_distinct[OF Cons.prems(1)] uniqStep_keyed[OF Cons.prems(2)]]
    by simp
qed

lemma map_fst_keyed:
  "\<forall>(k, v)\<in>set m. k = f v \<Longrightarrow> map f (map snd m) = map fst m"
  by (induction m) auto






subsection \<open>Consolidation is idempotent\<close>





subsection \<open>What the merge keeps\<close>

lemma uniqStep_keys: "fst ` set (uniqStep m it) = insert (mergeKey it) (fst ` set m)"
  by (simp add: uniqStep_def Let_def dom_update split: option.splits)

lemma foldl_uniqStep_keys:
  "fst ` set (foldl uniqStep m xs) = fst ` set m \<union> mergeKey ` set xs"
  by (induction xs arbitrary: m) (auto simp: uniqStep_keys)

lemma uniqItemsByBag_keys: "mergeKey ` set (uniqItemsByBag xs) = mergeKey ` set xs"
proof -
  have inv: "\<forall>(k, v)\<in>set (foldl uniqStep [] xs). k = mergeKey v"
    using foldl_uniqStep_inv[of "[]" xs] by simp
  have "mergeKey ` set (uniqItemsByBag xs) = set (map mergeKey (map snd (foldl uniqStep [] xs)))"
    by (simp add: uniqItemsByBag_def image_image)
  also have "\<dots> = fst ` set (foldl uniqStep [] xs)"
    unfolding map_fst_keyed[OF inv] by simp
  also have "\<dots> = mergeKey ` set xs"
    by (simp add: foldl_uniqStep_keys)
  finally show ?thesis .
qed

lemma uniqStep_labels:
  assumes "\<forall>(k, v)\<in>set m. \<exists>x\<in>A. labels v = labels x"
  shows "\<forall>(k, v)\<in>set (uniqStep m it). \<exists>x\<in>insert it A. labels v = labels x"
proof (cases "map_of m (mergeKey it)")
  case None
  then show ?thesis
    using assms set_update_subset[of "mergeKey it" it m]
    by (fastforce simp: uniqStep_def labels_def)
next
  case (Some ex)
  then have "(mergeKey it, ex) \<in> set m"
    by (rule map_of_SomeD)
  then have "\<exists>x\<in>A. labels ex = labels x"
    using assms by auto
  then show ?thesis
    using Some assms
      set_update_subset[of "mergeKey it"
        "ex\<lparr>quantity := jsAdd (orOne (quantity ex)) (orOne (quantity it))\<rparr>" m]
    by (fastforce simp: uniqStep_def labels_def)
qed

lemma foldl_uniqStep_labels:
  "\<forall>(k, v)\<in>set m. \<exists>x\<in>A. labels v = labels x \<Longrightarrow>
   \<forall>(k, v)\<in>set (foldl uniqStep m xs). \<exists>x\<in>A \<union> set xs. labels v = labels x"
proof (induction xs arbitrary: m A)
  case Nil
  then show ?case by simp
next
  case (Cons x xs)
  from Cons.IH[OF uniqStep_labels[OF Cons.prems], of x] show ?case by simp
qed

lemma uniqItemsByBag_labels:
  "\<forall>y\<in>set (uniqItemsByBag xs). \<exists>x\<in>set xs. labels y = labels x"
  using foldl_uniqStep_labels[of "[]" "{}" xs] by (fastforce simp: uniqItemsByBag_def)

lemma consolidate_labels:
  "\<forall>y\<in>set (consolidate lc xs). \<exists>x\<in>set xs. labels y = labels x"
  using uniqItemsByBag_labels[of "filter (\<lambda>x. jsLt (Fin 0) (quantity x)) xs"]
  unfolding consolidate_def Let_def set_sortBy by auto

lemma consolidate_keys:
  assumes "x \<in> set xs" "jsLt (Fin 0) (quantity x)"
  shows "\<exists>y\<in>set (consolidate lc xs). mergeKey y = mergeKey x"
proof -
  have "mergeKey x \<in> mergeKey ` set (filter (\<lambda>x. jsLt (Fin 0) (quantity x)) xs)"
    using assms by auto
  then have "mergeKey x \<in> mergeKey ` set (consolidate lc xs)"
    unfolding consolidate_def Let_def set_sortBy uniqItemsByBag_keys .
  then show ?thesis by auto
qed


subsection \<open>The labels of the pushed items\<close>

lemma knownLabels_packItem:
  "knownLabels (packItem c n q b) \<longleftrightarrow>
     b \<in> {''carryOn'', ''checked''}
     \<and> c \<in> {''Tech'', ''Documents'', ''Money'', ''Misc'', ''Toiletries'', ''Clothes'',
          pokemon @ '' GO''}"
  by (simp add: knownLabels_def packItem_def)

lemma generalItems_known: "\<forall>x\<in>set (generalItems st). knownLabels x"
  by (auto simp: generalItems_def knownLabels_packItem)

lemma clothesItems_known: "\<forall>x\<in>set (clothesItems m w). knownLabels x"
  by (auto simp: clothesItems_def Let_def knownLabels_packItem)

lemma addWeatherClothes_known:
  "\<forall>x\<in>set items. knownLabels x \<Longrightarrow>
   \<forall>x\<in>set (addWeatherClothes items mn mx r s). knownLabels x"
  by (auto simp: addWeatherClothes_def knownLabels_packItem split: option.splits if_splits)

lemma pokemonItems_known: "\<forall>x\<in>set (pokemonItems st). knownLabels x"
  by (auto simp: pokemonItems_def knownLabels_packItem)

lemma pushedItems_known: "\<forall>x\<in>set (pushedItems nd st). knownLabels x"
proof -
  let ?win = "computeOverallTripWindow (segments st)"
  let ?m = "computeClothesMath nd (startISO ?win) (endISO ?win) (washes st) (includeSpareSet st)"
  let ?w = "computeWeatherSummary (segments st)"
  have "\<forall>x\<in>set (generalItems st @ clothesItems ?m ?w). knownLabels x"
    using generalItems_known[of st] clothesItems_known[of ?m ?w] by (simp add: ball_Un)
  then have "\<forall>x\<in>set (addWeatherClothes (generalItems st @ clothesItems ?m ?w)
       (overallMin ?w) (overallMax ?w) (anyRain ?w) (anySun ?w)). knownLabels x"
    by (rule addWeatherClothes_known)
  then show ?thesis
    using generalItems_known[of st] pokemonItems_known[of st]
    unfolding pushedItems_def Let_def by (simp add: ball_Un)
qed

lemma mergeKey_known_inj:
  assumes "knownLabels a" "knownLabels b" "mergeKey a = mergeKey b"
  shows "labels a = labels b"
proof -
  have bag: "bag a = bag b"
    using assms by (auto simp: knownLabels_def mergeKey_def)
  then have "category a @ ''__'' @ name a = category b @ ''__'' @ name b"
    using assms(3) by (simp add: mergeKey_def)
  moreover have "category a \<in> {''Tech'', ''Documents'', ''Money'', ''Misc'', ''Toiletries'', ''Clothes'',
          pokemon @ '' GO''}" "category b \<in> {''Tech'', ''Documents'', ''Money'', ''Misc'', ''Toiletries'', ''Clothes'',
          pokemon @ '' GO''}"
    using assms(1,2) by (simp_all add: knownLabels_def)
  ultimately have "category a = category b \<and> name a = name b"
    by (auto simp: pokemon_def)
  with bag show ?thesis by (simp add: labels_def)
qed

lemma generate_includes:
  assumes "x \<in> set (pushedItems nd st)" "jsLt (Fin 0) (quantity x)"
  shows "\<exists>y\<in>set (generatePackingList lc nd st). labels y = labels x"
proof -
  obtain y where y: "y \<in> set (generatePackingList lc nd st)" "mergeKey y = mergeKey x"
    using consolidate_keys[OF assms] unfolding generatePackingList_def by blast
  obtain x' where x': "x' \<in> set (pushedItems nd st)" "labels y = labels x'"
    using consolidate_labels y(1) unfolding generatePackingList_def by blast
  have "mergeKey x' = mergeKey x"
    using x'(2) y(2) by (simp add: labels_def mergeKey_def)
  then have "labels x' = labels x"
    using pushedItems_known x'(1) assms(1) by (intro mergeKey_known_inj) auto
  with y(1) x'(2) show ?thesis by auto
qed


subsection \<open>Names of the pushed items\<close>

lemma generalItems_eki:
  "packItem ''Misc'' ''Eki stamp book'' (Fin 1) ''carryOn'' \<in> set (generalItems st) \<longleftrightarrow> isJapanTrip st"
  by (auto simp: generalItems_def packItem_def)

lemma generalItems_no_sunglasses: "\<forall>x\<in>set (generalItems st). name x \<noteq> ''Sunglasses''"
  by (auto simp: generalItems_def packItem_def)

lemma clothesItems_no_sunglasses: "\<forall>x\<in>set (clothesItems m w). name x \<noteq> ''Sunglasses''"
  by (auto simp: clothesItems_def Let_def packItem_def)

lemma pokemonItems_no_sunglasses: "\<forall>x\<in>set (pokemonItems st). name x \<noteq> ''Sunglasses''"
  by (auto simp: pokemonItems_def packItem_def pokemon_def)

lemma addWeatherClothes_no_sunglasses:
  "\<forall>x\<in>set items. name x \<noteq> ''Sunglasses'' \<Longrightarrow>
   \<forall>x\<in>set (addWeatherClothes items mn mx r False). name x \<noteq> ''Sunglasses''"
  by (auto simp: addWeatherClothes_def packItem_def split: option.splits if_splits)

lemma addWeatherClothes_example:
  "set [packItem ''Clothes'' ''Warm jacket'' (Fin 1) ''checked'',
        packItem ''Clothes'' ''Warm layer (jumper or hoodie)'' (Fin 1) ''checked'',
        packItem ''Clothes'' ''Beanie'' (Fin 1) ''checked'',
        packItem ''Clothes'' ''Scarf'' (Fin 1) ''checked'',
        packItem ''Clothes'' ''Gloves'' (Fin 1) ''checked'',
        packItem ''Clothes'' ''Umbrella or rain jacket'' (Fin 1) ''checked'',
        packItem ''Clothes'' ''Hat (optional)'' (Fin 1) ''checked'']
   \<subseteq> set (addWeatherClothes items (Some 4) (Some 30) True False)"
  by (simp add: addWeatherClothes_def)

lemma pushedItems_days:
  assumes "0 < days (computeClothesMath nd (startISO (computeOverallTripWindow (segments st)))
              (endISO (computeOverallTripWindow (segments st))) (washes st) (includeSpareSet st))"
  shows "pushedItems nd st =
     addWeatherClothes
       (generalItems st
        @ clothesItems
            (computeClothesMath nd (startISO (computeOverallTripWindow (segments st)))
              (endISO (computeOverallTripWindow (segments st))) (washes st) (includeSpareSet st))
            (computeWeatherSummary (segments st)))
       (overallMin (computeWeatherSummary (segments st)))
       (overallMax (computeWeatherSummary (segments st)))
       (anyRain (computeWeatherSummary (segments st)))
       (anySun (computeWeatherSummary (segments st)))
     @ pokemonItems st"
  using assms by (simp add: pushedItems_def Let_def)

lemma generate_names:
  "name ` set (generatePackingList lc nd st) \<subseteq> name ` set (pushedItems nd st)"
proof
  fix n assume "n \<in> name ` set (generatePackingList lc nd st)"
  then obtain y where y: "y \<in> set (generatePackingList lc nd st)" "n = name y"
    by auto
  then obtain x where "x \<in> set (pushedItems nd st)" "labels y = labels x"
    using consolidate_labels unfolding generatePackingList_def by blast
  with y(2) show "n \<in> name ` set (pushedItems nd st)"
    by (auto simp: labels_def)
qed


subsection \<open>The fields the engine reads\<close>










subsection \<open>The Eki stamp book\<close>

lemma eki_item_evaluated:
  "packItem ''Misc'' ''Eki stamp book'' (Fin 1) ''carryOn''
     \<in> set (generatePackingList codeUnitCompare sampleNewDate
         \<lparr>segments = ([] :: segment list), washes = Fin 0, includeSpareSet = True,
          pokemonGoNeeded = False, altAccount = False, eggWalker = False, tradeList = False,
          partnerPokemon = False, isInternational = False, isJapanTrip = True,
          bringTablet = False, bringWorkLaptop = False\<rparr>)"
  by code_simp

section \<open>The claims\<close>

text \<open>
  Claim C1 says that the Eki stamp book is listed only when both \<open>isInternational\<close> and
  \<open>isJapanTrip\<close> are true. The code tests \<open>isJapanTrip\<close> alone: whenever it is true
  the generated list has the Eki stamp book in the carry-on bag, whatever
  \<open>isInternational\<close> is. The second theorem is the case of a trip that is not
  international.
\<close>

theorem eki_follows_japan_flag:
  assumes "isJapanTrip st"
  shows "\<exists>y\<in>set (generatePackingList lc nd st). labels y = (''carryOn'', ''Misc'', ''Eki stamp book'')"
proof -
  have "packItem ''Misc'' ''Eki stamp book'' (Fin 1) ''carryOn'' \<in> set (generalItems st)"
    using assms by (simp add: generalItems_eki)
  then have "packItem ''Misc'' ''Eki stamp book'' (Fin 1) ''carryOn'' \<in> set (pushedItems nd st)"
    by (simp add: pushedItems_def Let_def addWeatherClothes_def)
  moreover have "jsLt (Fin 0) (quantity (packItem ''Misc'' ''Eki stamp book'' (Fin 1) ''carryOn''))"
    by (simp add: packItem_def)
  ultimately obtain y where "y \<in> set (generatePackingList lc nd st)"
      "labels y = labels (packItem ''Misc'' ''Eki stamp book'' (Fin 1) ''carryOn'')"
    using generate_includes by blast
  then show ?thesis
    by (auto simp: labels_def packItem_def)
qed

theorem eki_without_international:
  "\<not> isInternational
       \<lparr>segments = ([] :: segment list), washes = Fin 0, includeSpareSet = True,
        pokemonGoNeeded = False, altAccount = False, eggWalker = False, tradeList = False,
        partnerPokemon = False, isInternational = False, isJapanTrip = True,
        bringTablet = False, bringWorkLaptop = False\<rparr>
   \<and> (\<exists>y\<in>set (generatePackingList codeUnitCompare sampleNewDate
         \<lparr>segments = ([] :: segment list), washes = Fin 0, includeSpareSet = True,
          pokemonGoNeeded = False, altAccount = False, eggWalker = False, tradeList = False,
          partnerPokemon = False, isInternational = False, isJapanTrip = True,
          bringTablet = False, bringWorkLaptop = False\<rparr>).
        labels y = (''carryOn'', ''Misc'', ''Eki stamp book''))"
  using eki_follows_japan_flag[of
         "\<lparr>segments = ([] :: segment list), washes = Fin 0, includeSpareSet = True,
          pokemonGoNeeded = False, altAccount = False, eggWalker = False, tradeList = False,
          partnerPokemon = False, isInternational = False, isJapanTrip = True,
          bringTablet = False, bringWorkLaptop = False\<rparr>" codeUnitCompare sampleNewDate]
  by simp




text \<open>
  Claim C3, as the code has it. When some segment has a start date and some segment has an
  end date, the window is the least of the non-empty start dates and the greatest of the
  non-empty end dates, as strings. The window is the pair of empty strings exactly when no
  segment has a start date or no segment has an end date.
\<close>

theorem overall_window_amended:
  "(filter (\<lambda>d. d \<noteq> []) (map startDate segs) \<noteq> []
      \<and> filter (\<lambda>d. d \<noteq> []) (map endDate segs) \<noteq> [] \<longrightarrow>
      startISO (computeOverallTripWindow segs)
        = Min (set (filter (\<lambda>d. d \<noteq> []) (map startDate segs)))
      \<and> endISO (computeOverallTripWindow segs)
        = Max (set (filter (\<lambda>d. d \<noteq> []) (map endDate segs))))
   \<and> (computeOverallTripWindow segs = \<lparr>startISO = [], endISO = []\<rparr> \<longleftrightarrow>
        filter (\<lambda>d. d \<noteq> []) (map startDate segs) = []
        \<or> filter (\<lambda>d. d \<noteq> []) (map endDate segs) = [])"
proof (cases "filter (\<lambda>d. d \<noteq> []) (map startDate segs) = []
     \<or> filter (\<lambda>d. d \<noteq> []) (map endDate segs) = []")
  case True
  then show ?thesis
    using window_empty[OF True] by auto
next
  case False
  then have ne: "filter (\<lambda>d. d \<noteq> []) (map startDate segs) \<noteq> []"
    "filter (\<lambda>d. d \<noteq> []) (map endDate segs) \<noteq> []"
    by auto
  have "Min (set (filter (\<lambda>d. d \<noteq> []) (map startDate segs))) \<noteq> []"
    by (rule Min_nonempty_strings[OF ne(1)]) simp
  then show ?thesis
    using False by (simp add: window_nonempty[OF ne])
qed

theorem overall_window_amended_witness:
  "computeOverallTripWindow
     [\<lparr>startDate = ''2024-03-01'', endDate = ''2024-03-05'', tempMin = NaN, tempMax = NaN,
       rainLikely = False, hotSunLikely = False, humidLikely = False\<rparr>,
      \<lparr>startDate = ''2024-02-28'', endDate = [], tempMin = NaN, tempMax = NaN,
       rainLikely = False, hotSunLikely = False, humidLikely = False\<rparr>]
   = \<lparr>startISO = ''2024-02-28'', endISO = ''2024-03-05''\<rparr>"
  using overall_window_amended[of
     "[\<lparr>startDate = ''2024-03-01'', endDate = ''2024-03-05'', tempMin = NaN, tempMax = NaN,
       rainLikely = False, hotSunLikely = False, humidLikely = False\<rparr>,
      \<lparr>startDate = ''2024-02-28'', endDate = [], tempMin = NaN, tempMax = NaN,
       rainLikely = False, hotSunLikely = False, humidLikely = False\<rparr>]"]
  by (cases "computeOverallTripWindow
     [\<lparr>startDate = ''2024-03-01'', endDate = ''2024-03-05'', tempMin = NaN, tempMax = NaN,
       rainLikely = False, hotSunLikely = False, humidLikely = False\<rparr>,
      \<lparr>startDate = ''2024-02-28'', endDate = [], tempMin = NaN, tempMax = NaN,
       rainLikely = False, hotSunLikely = False, humidLikely = False\<rparr>]") simp

text \<open>
  Claim C3 as stated fails for a single segment with a start date and no end date: a date
  is set, and the window is the pair of empty strings.
\<close>

theorem overall_window_counterexample:
  "computeOverallTripWindow
     [\<lparr>startDate = ''2024-03-01'', endDate = [], tempMin = NaN, tempMax = NaN,
       rainLikely = False, hotSunLikely = False, humidLikely = False\<rparr>]
   = \<lparr>startISO = [], endISO = []\<rparr>"
  by (simp add: computeOverallTripWindow_def)

text \<open>
  Claim C4. For two dates that are not empty and that the platform reads as valid, with
  time values \<open>s\<close> and \<open>e\<close>, the day count is \<open>floor ((e - s) / 86400000) + 1\<close> when
  \<open>e - s\<close> is not negative and 0 otherwise; the same date twice gives 1, and an end before
  the start gives 0.
\<close>

theorem tripDays_valid_dates:
  assumes "startS \<noteq> []" and "endS \<noteq> []"
    and "getTime (newDate (startS @ ''T00:00:00Z'')) = Some s"
    and "getTime (newDate (endS @ ''T00:00:00Z'')) = Some e"
  shows "tripDaysInclusive newDate startS endS =
           (if e - s \<ge> 0 then \<lfloor>real_of_int (e - s) / 86400000\<rfloor> + 1 else 0)
         \<and> (startS = endS \<longrightarrow> tripDaysInclusive newDate startS endS = 1)
         \<and> (e < s \<longrightarrow> tripDaysInclusive newDate startS endS = 0)"
  using assms
  by (auto simp: tripDaysInclusive_def parseISODateToUTC_def Let_def)

theorem tripDays_valid_dates_witness:
  "getTime (sampleNewDate (''2024-03-01'' @ ''T00:00:00Z'')) = Some 1709251200000
   \<and> getTime (sampleNewDate (''2024-03-05'' @ ''T00:00:00Z'')) = Some 1709596800000
   \<and> tripDaysInclusive sampleNewDate ''2024-03-01'' ''2024-03-05'' = 5
   \<and> tripDaysInclusive sampleNewDate ''2024-03-05'' ''2024-03-05'' = 1
   \<and> tripDaysInclusive sampleNewDate ''2024-03-05'' ''2024-03-01'' = 0"
  using tripDays_valid_dates[of "''2024-03-01''" "''2024-03-05''" sampleNewDate
      1709251200000 1709596800000]
    tripDays_valid_dates[of "''2024-03-05''" "''2024-03-05''" sampleNewDate
      1709596800000 1709596800000]
    tripDays_valid_dates[of "''2024-03-05''" "''2024-03-01''" sampleNewDate
      1709596800000 1709251200000]
  by (simp add: sampleNewDate_def)

text \<open>
  Claim C5. When the trip has days and the aggregated weather has \<open>overallMin = 4\<close>,
  \<open>overallMax = 30\<close>, rain and no sun, the generated list has an item of the checked bag
  and the category Clothes with each of the seven names, and no item named Sunglasses.
\<close>

theorem weather_example_items:
  assumes d: "0 < days (computeClothesMath nd (startISO (computeOverallTripWindow (segments st)))
              (endISO (computeOverallTripWindow (segments st))) (washes st) (includeSpareSet st))"
    and mn: "overallMin (computeWeatherSummary (segments st)) = Some 4"
    and mx: "overallMax (computeWeatherSummary (segments st)) = Some 30"
    and rain: "anyRain (computeWeatherSummary (segments st))"
    and sun: "\<not> anySun (computeWeatherSummary (segments st))"
  shows "(\<forall>n\<in>{''Warm jacket'', ''Warm layer (jumper or hoodie)'', ''Beanie'', ''Scarf'',
            ''Gloves'', ''Umbrella or rain jacket'', ''Hat (optional)''}.
            \<exists>y\<in>set (generatePackingList lc nd st). labels y = (''checked'', ''Clothes'', n))
         \<and> ''Sunglasses'' \<notin> name ` set (generatePackingList lc nd st)"
proof
  let ?m = "computeClothesMath nd (startISO (computeOverallTripWindow (segments st)))
              (endISO (computeOverallTripWindow (segments st))) (washes st) (includeSpareSet st)"
  let ?w = "computeWeatherSummary (segments st)"
  let ?base = "generalItems st @ clothesItems ?m ?w"
  have pushed: "pushedItems nd st
      = addWeatherClothes ?base (Some 4) (Some 30) True False @ pokemonItems st"
    using pushedItems_days[OF d] mn mx rain sun by simp
  show "\<forall>n\<in>{''Warm jacket'', ''Warm layer (jumper or hoodie)'', ''Beanie'', ''Scarf'',
            ''Gloves'', ''Umbrella or rain jacket'', ''Hat (optional)''}.
            \<exists>y\<in>set (generatePackingList lc nd st). labels y = (''checked'', ''Clothes'', n)"
  proof
    fix n
    assume n: "n \<in> {''Warm jacket'', ''Warm layer (jumper or hoodie)'', ''Beanie'', ''Scarf'',
            ''Gloves'', ''Umbrella or rain jacket'', ''Hat (optional)''}"
    then have "packItem ''Clothes'' n (Fin 1) ''checked''
        \<in> set (addWeatherClothes ?base (Some 4) (Some 30) True False)"
      using addWeatherClothes_example[of ?base] by auto
    then have "packItem ''Clothes'' n (Fin 1) ''checked'' \<in> set (pushedItems nd st)"
      unfolding pushed by simp
    moreover have "jsLt (Fin 0) (quantity (packItem ''Clothes'' n (Fin 1) ''checked''))"
      by (simp add: packItem_def)
    ultimately obtain y where "y \<in> set (generatePackingList lc nd st)"
        "labels y = labels (packItem ''Clothes'' n (Fin 1) ''checked'')"
      using generate_includes by blast
    then show "\<exists>y\<in>set (generatePackingList lc nd st). labels y = (''checked'', ''Clothes'', n)"
      by (auto simp: labels_def packItem_def)
  qed
next
  let ?m = "computeClothesMath nd (startISO (computeOverallTripWindow (segments st)))
              (endISO (computeOverallTripWindow (segments st))) (washes st) (includeSpareSet st)"
  let ?w = "computeWeatherSummary (segments st)"
  let ?base = "generalItems st @ clothesItems ?m ?w"
  have pushed: "pushedItems nd st
      = addWeatherClothes ?base (Some 4) (Some 30) True False @ pokemonItems st"
    using pushedItems_days[OF d] mn mx rain sun by simp
  have "\<forall>x\<in>set ?base. name x \<noteq> ''Sunglasses''"
    using generalItems_no_sunglasses[of st] clothesItems_no_sunglasses[of ?m ?w]
    by (simp add: ball_Un)
  then have "\<forall>x\<in>set (addWeatherClothes ?base (Some 4) (Some 30) True False).
      name x \<noteq> ''Sunglasses''"
    by (rule addWeatherClothes_no_sunglasses)
  then have "\<forall>x\<in>set (pushedItems nd st). name x \<noteq> ''Sunglasses''"
    unfolding pushed using pokemonItems_no_sunglasses[of st] by (simp add: ball_Un)
  then have "''Sunglasses'' \<notin> name ` set (pushedItems nd st)"
    by auto
  then show "''Sunglasses'' \<notin> name ` set (generatePackingList lc nd st)"
    using generate_names[of lc nd st] by blast
qed

theorem weather_example_items_witness:
  "(\<exists>y\<in>set (generatePackingList codeUnitCompare sampleNewDate
       \<lparr>segments = [\<lparr>startDate = ''2024-03-01'', endDate = ''2024-03-05'', tempMin = Fin 4,
          tempMax = Fin 30, rainLikely = True, hotSunLikely = False, humidLikely = False\<rparr>],
        washes = Fin 0, includeSpareSet = True, pokemonGoNeeded = False, altAccount = False,
        eggWalker = False, tradeList = False, partnerPokemon = False, isInternational = False,
        isJapanTrip = False, bringTablet = False, bringWorkLaptop = False\<rparr>).
      labels y = (''checked'', ''Clothes'', ''Warm jacket''))
   \<and> ''Sunglasses'' \<notin> name ` set (generatePackingList codeUnitCompare sampleNewDate
       \<lparr>segments = [\<lparr>startDate = ''2024-03-01'', endDate = ''2024-03-05'', tempMin = Fin 4,
          tempMax = Fin 30, rainLikely = True, hotSunLikely = False, humidLikely = False\<rparr>],
        washes = Fin 0, includeSpareSet = True, pokemonGoNeeded = False, altAccount = False,
        eggWalker = False, tradeList = False, partnerPokemon = False, isInternational = False,
        isJapanTrip = False, bringTablet = False, bringWorkLaptop = False\<rparr>)"
  using weather_example_items[of sampleNewDate
       "\<lparr>segments = [\<lparr>startDate = ''2024-03-01'', endDate = ''2024-03-05'', tempMin = Fin 4,
          tempMax = Fin 30, rainLikely = True, hotSunLikely = False, humidLikely = False\<rparr>],
        washes = Fin 0, includeSpareSet = True, pokemonGoNeeded = False, altAccount = False,
        eggWalker = False, tradeList = False, partnerPokemon = False, isInternational = False,
        isJapanTrip = False, bringTablet = False, bringWorkLaptop = False\<rparr>" codeUnitCompare]
  by (simp add: computeClothesMath_def computeOverallTripWindow_def computeWeatherSummary_def
      weatherStep_def safeParseNumber_def tripDaysInclusive_def parseISODateToUTC_def
      sampleNewDate_def Let_def)

text \<open>
  Claim C6. For a fixed spare-set flag and a wash count that is an integer and not
  negative, \<open>setsNeeded\<close> does not decrease when the day count grows, and does not
  increase when the wash count grows. The comparison is the one of JavaScript numbers.
\<close>

theorem setsNeeded_mono:
  "(0 \<le> w \<and> tripDaysInclusive nd s1 e1 \<le> tripDaysInclusive nd s2 e2 \<longrightarrow>
      jsLe (setsNeeded (computeClothesMath nd s1 e1 (Fin (of_int w)) sp))
           (setsNeeded (computeClothesMath nd s2 e2 (Fin (of_int w)) sp)))
   \<and> (0 \<le> w1 \<and> w1 \<le> w2 \<longrightarrow>
      jsLe (setsNeeded (computeClothesMath nd s e (Fin (of_int w2)) sp))
           (setsNeeded (computeClothesMath nd s e (Fin (of_int w1)) sp)))"
proof (intro conjI impI)
  assume a: "0 \<le> w \<and> tripDaysInclusive nd s1 e1 \<le> tripDaysInclusive nd s2 e2"
  then have "real_of_int (tripDaysInclusive nd s1 e1) / (of_int w + 1)
     \<le> real_of_int (tripDaysInclusive nd s2 e2) / (of_int w + 1)"
    by (simp add: divide_right_mono)
  then have "\<lceil>real_of_int (tripDaysInclusive nd s1 e1) / (of_int w + 1)\<rceil>
     \<le> \<lceil>real_of_int (tripDaysInclusive nd s2 e2) / (of_int w + 1)\<rceil>"
    by (rule ceiling_mono)
  then show "jsLe (setsNeeded (computeClothesMath nd s1 e1 (Fin (of_int w)) sp))
           (setsNeeded (computeClothesMath nd s2 e2 (Fin (of_int w)) sp))"
    using a by (auto simp: setsNeeded_nonneg_washes)
next
  assume a: "0 \<le> w1 \<and> w1 \<le> w2"
  have "real_of_int (tripDaysInclusive nd s e) / (of_int w2 + 1)
     \<le> real_of_int (tripDaysInclusive nd s e) / (of_int w1 + 1)"
    using a tripDays_nonneg[of nd s e] by (intro divide_left_mono) auto
  then have "\<lceil>real_of_int (tripDaysInclusive nd s e) / (of_int w2 + 1)\<rceil>
     \<le> \<lceil>real_of_int (tripDaysInclusive nd s e) / (of_int w1 + 1)\<rceil>"
    by (rule ceiling_mono)
  then show "jsLe (setsNeeded (computeClothesMath nd s e (Fin (of_int w2)) sp))
           (setsNeeded (computeClothesMath nd s e (Fin (of_int w1)) sp))"
    using a by (auto simp: setsNeeded_nonneg_washes)
qed

theorem setsNeeded_mono_witness:
  "jsLe (setsNeeded (computeClothesMath sampleNewDate ''2024-03-05'' ''2024-03-05'' (Fin 1) True))
        (setsNeeded (computeClothesMath sampleNewDate ''2024-03-01'' ''2024-03-05'' (Fin 1) True))
   \<and> jsLe (setsNeeded (computeClothesMath sampleNewDate ''2024-03-01'' ''2024-03-05'' (Fin 1) True))
        (setsNeeded (computeClothesMath sampleNewDate ''2024-03-01'' ''2024-03-05'' (Fin 0) True))"
  using setsNeeded_mono[of 1 sampleNewDate "''2024-03-05''" "''2024-03-05''"
      "''2024-03-01''" "''2024-03-05''" True 0 1 "''2024-03-01''" "''2024-03-05''"]
  by (simp add: tripDaysInclusive_def parseISODateToUTC_def sampleNewDate_def)









end
